theory Spec2Isabelle
  imports Complex_Main "HOL-Library.AList"
begin

text \<open>
  A model of the kanji composition engine: the composer that places a part beside an
  existing glyph (\<open>KanjiComposer\<close>), the loader that fetches and caches glyph definitions
  (\<open>GlyphLoader\<close>) and the editor state with its undo history and JSON exchange
  (\<open>KanjiEditorState\<close>), followed by the properties the specification states of them.
\<close>

section \<open>JavaScript values\<close>

text \<open>
  A JavaScript string is modelled as the list of its Unicode code points, so that
  \<open>codePointAt(0)\<close> is the head of the list; \<open>ascii\<close> embeds an ASCII literal.
\<close>

type_synonym jsstring = "nat list"

definition ascii :: "string \<Rightarrow> jsstring" where
  "ascii s = map of_char s"

text \<open>
  A JavaScript number is an exact rational or one of the three non-finite values.
  Arithmetic follows IEEE-754 on the non-finite values and on division by zero; rounding,
  overflow and the sign of zero are not modelled: every finite result is exact.
\<close>

datatype jsnum = Fin rat | PInf | NInf | NaN

fun infOf :: "rat \<Rightarrow> jsnum" where
  "infOf s = (if 0 < s then PInf else if s < 0 then NInf else NaN)"

fun jsign :: "jsnum \<Rightarrow> rat" where
  "jsign (Fin a) = sgn a"
| "jsign PInf = 1"
| "jsign NInf = - 1"
| "jsign NaN = 0"

instantiation jsnum :: "{plus, minus, times, inverse}"
begin

fun plus_jsnum :: "jsnum \<Rightarrow> jsnum \<Rightarrow> jsnum" where
  "plus_jsnum (Fin a) (Fin b) = Fin (a + b)"
| "plus_jsnum NaN _ = NaN"
| "plus_jsnum _ NaN = NaN"
| "plus_jsnum PInf NInf = NaN"
| "plus_jsnum NInf PInf = NaN"
| "plus_jsnum PInf _ = PInf"
| "plus_jsnum _ PInf = PInf"
| "plus_jsnum NInf _ = NInf"
| "plus_jsnum _ NInf = NInf"

fun minus_jsnum :: "jsnum \<Rightarrow> jsnum \<Rightarrow> jsnum" where
  "minus_jsnum (Fin a) (Fin b) = Fin (a - b)"
| "minus_jsnum NaN _ = NaN"
| "minus_jsnum _ NaN = NaN"
| "minus_jsnum PInf PInf = NaN"
| "minus_jsnum NInf NInf = NaN"
| "minus_jsnum PInf _ = PInf"
| "minus_jsnum _ NInf = PInf"
| "minus_jsnum NInf _ = NInf"
| "minus_jsnum _ PInf = NInf"

fun times_jsnum :: "jsnum \<Rightarrow> jsnum \<Rightarrow> jsnum" where
  "times_jsnum (Fin a) (Fin b) = Fin (a * b)"
| "times_jsnum NaN _ = NaN"
| "times_jsnum _ NaN = NaN"
| "times_jsnum a b = infOf (jsign a * jsign b)"

fun divide_jsnum :: "jsnum \<Rightarrow> jsnum \<Rightarrow> jsnum" where
  "divide_jsnum (Fin a) (Fin b) = (if b = 0 then infOf (sgn a) else Fin (a / b))"
| "divide_jsnum NaN _ = NaN"
| "divide_jsnum _ NaN = NaN"
| "divide_jsnum (Fin a) _ = Fin 0"
| "divide_jsnum a (Fin b) = infOf (jsign a * (if b < 0 then - 1 else 1))"
| "divide_jsnum _ _ = NaN"

definition inverse_jsnum :: "jsnum \<Rightarrow> jsnum" where
  "inverse_jsnum a = divide (Fin 1) a"

instance ..

end

fun floorJs :: "jsnum \<Rightarrow> jsnum" where
  "floorJs (Fin a) = Fin (of_int \<lfloor>a\<rfloor>)"
| "floorJs a = a"


text \<open>
  The values the loader and the editor handle dynamically: what JSON can deliver, and
  \<open>undefined\<close>. An object is the list of its own properties in insertion order.
\<close>

datatype jsval =
    Undefined
  | Null
  | Bool bool
  | Number jsnum
  | String jsstring
  | Array "jsval list"
  | Object "(jsstring \<times> jsval) list"

fun truthy :: "jsval \<Rightarrow> bool" where
  "truthy Undefined = False"
| "truthy Null = False"
| "truthy (Bool b) = b"
| "truthy (Number n) = (n \<noteq> Fin 0 \<and> n \<noteq> NaN)"
| "truthy (String s) = (s \<noteq> [])"
| "truthy (Array vs) = True"
| "truthy (Object fs) = True"

fun typeof :: "jsval \<Rightarrow> string" where
  "typeof Undefined = ''undefined''"
| "typeof Null = ''object''"
| "typeof (Bool b) = ''boolean''"
| "typeof (Number n) = ''number''"
| "typeof (String s) = ''string''"
| "typeof (Array vs) = ''object''"
| "typeof (Object fs) = ''object''"

text \<open>
  Reading a named property: a TypeError (\<open>None\<close>) on \<open>null\<close> and \<open>undefined\<close>, the own
  property of an object, and \<open>undefined\<close> otherwise. Only the names \<open>data\<close>,
  \<open>logicalSize\<close> and \<open>area\<close> are ever read this way, and no built-in property bears one
  of them.
\<close>

fun getProp :: "jsval \<Rightarrow> jsstring \<Rightarrow> jsval option" where
  "getProp Undefined k = None"
| "getProp Null k = None"
| "getProp (Object fs) k = Some (case map_of fs k of Some v \<Rightarrow> v | None \<Rightarrow> Undefined)"
| "getProp v k = Some Undefined"

definition startsWith :: "jsstring \<Rightarrow> jsstring \<Rightarrow> bool" where
  "startsWith s p = (take (length p) s = p)"

text \<open>\<open>s.split(sep)\<close> for a one-character separator; the empty string splits into \<open>['''']\<close>.\<close>

fun splitOn :: "nat \<Rightarrow> jsstring \<Rightarrow> jsstring list" where
  "splitOn sep [] = [[]]"
| "splitOn sep (c # cs) =
     (if c = sep then [] # splitOn sep cs
      else (case splitOn sep cs of p # ps \<Rightarrow> (c # p) # ps | [] \<Rightarrow> [[c]]))"

text \<open>\<open>n.toString(radix)\<close> for a non-negative integer, with lower-case digits.\<close>

definition digitChar :: "nat \<Rightarrow> nat" where
  "digitChar d = (if d < 10 then 48 + d else 87 + d)"

function toStringRadix :: "nat \<Rightarrow> nat \<Rightarrow> jsstring" where
  "toStringRadix radix n =
     (if n < radix \<or> radix < 2 then [digitChar n]
      else toStringRadix radix (n div radix) @ [digitChar (n mod radix)])"
  by pat_completeness auto
termination
  by (relation "measure snd") auto

section \<open>KanjiComposer\<close>

record Rect =
  x :: jsnum
  y :: jsnum
  w :: jsnum
  h :: jsnum

text \<open>Reading an array past its end yields \<open>undefined\<close>, which arithmetic turns into NaN.\<close>

definition numAt :: "jsnum list \<Rightarrow> nat \<Rightarrow> jsnum" where
  "numAt s i = (if i < length s then s ! i else NaN)"

text \<open>
  Writing at index \<open>length\<close> extends a JavaScript array by one element. The loop below
  never writes further out than that.
\<close>

definition setAt :: "jsnum list \<Rightarrow> nat \<Rightarrow> jsnum \<Rightarrow> jsnum list" where
  "setAt s i v = (if i < length s then s[i := v] else s @ [v])"

function transformLoop ::
  "jsnum \<Rightarrow> jsnum \<Rightarrow> jsnum \<Rightarrow> jsnum \<Rightarrow> nat \<Rightarrow> jsnum list \<Rightarrow> jsnum list" where
  "transformLoop scaleX scaleY offsetX offsetY i newStroke =
     (if i < length newStroke then
        (let val = newStroke ! i in
         if (i - 3) mod 2 = 0
         then transformLoop scaleX scaleY offsetX offsetY (i + 1)
                (newStroke[i := floorJs (val * scaleX + offsetX)])
         else transformLoop scaleX scaleY offsetX offsetY (i + 1)
                (newStroke[i := floorJs (val * scaleY + offsetY)]))
      else newStroke)"
  by pat_completeness auto
termination
  by (relation "measure (\<lambda>(sx, sy, ox, oy, i, s). length s - i)") auto

definition transformStrokes :: "jsnum list list \<Rightarrow> Rect \<Rightarrow> Rect option \<Rightarrow> jsnum list list" where
  "transformStrokes strokes targetBox srcRect =
     (let sX = (case srcRect of Some r \<Rightarrow> x r | None \<Rightarrow> Fin 0) * Fin 200;
          sY = (case srcRect of Some r \<Rightarrow> y r | None \<Rightarrow> Fin 0) * Fin 200;
          sW = (case srcRect of Some r \<Rightarrow> w r | None \<Rightarrow> Fin 1) * Fin 200;
          sH = (case srcRect of Some r \<Rightarrow> h r | None \<Rightarrow> Fin 1) * Fin 200;
          scaleX = w targetBox / sW;
          scaleY = h targetBox / sH;
          offsetX = x targetBox - sX * scaleX;
          offsetY = y targetBox - sY * scaleY
      in map (\<lambda>s. transformLoop scaleX scaleY offsetX offsetY 3 s) strokes)"

text \<open>
  \<open>stringify\<close> joins the fields of a record with a colon and the records with a dollar
  sign. The conversion of a number to text is the language's own and is a parameter.
\<close>

fun joinWith :: "jsstring \<Rightarrow> jsstring list \<Rightarrow> jsstring" where
  "joinWith sep [] = []"
| "joinWith sep [a] = a"
| "joinWith sep (a # b # rest) = a @ sep @ joinWith sep (b # rest)"

definition stringify :: "(jsnum \<Rightarrow> jsstring) \<Rightarrow> jsnum list list \<Rightarrow> jsstring" where
  "stringify numToString strokes =
     joinWith (ascii ''$'') (map (\<lambda>s. joinWith (ascii '':'') (map numToString s)) strokes)"

text \<open>
  The layout chain of \<open>compose\<close> for every mode but TRIANGLE: the new logical size,
  \<open>boxCurrent\<close> and \<open>boxPart\<close>. A mode that matches no branch leaves the size as it is and
  both boxes the empty object, whose missing fields read as NaN wherever they are used.
\<close>

definition emptyBox :: Rect where
  "emptyBox = \<lparr>x = NaN, y = NaN, w = NaN, h = NaN\<rparr>"

definition layoutBoxes :: "jsstring \<Rightarrow> jsnum \<Rightarrow> jsnum \<times> Rect \<times> Rect" where
  "layoutBoxes layoutMode currentLogicalSize =
     (if layoutMode = ascii ''ADD_RIGHT'' then
        (let addW = Fin 300; nextLogicalSize = currentLogicalSize + addW
         in (nextLogicalSize,
             \<lparr>x = Fin 0, y = Fin 0, w = currentLogicalSize, h = nextLogicalSize\<rparr>,
             \<lparr>x = currentLogicalSize, y = Fin 0, w = addW, h = nextLogicalSize\<rparr>))
      else if layoutMode = ascii ''ADD_LEFT'' then
        (let addW = Fin 120; nextLogicalSize = currentLogicalSize + addW
         in (nextLogicalSize,
             \<lparr>x = addW, y = Fin 0, w = currentLogicalSize, h = nextLogicalSize\<rparr>,
             \<lparr>x = Fin 0, y = Fin 0, w = addW, h = nextLogicalSize\<rparr>))
      else if layoutMode = ascii ''ADD_TOP'' then
        (let addH = Fin 150; nextLogicalSize = currentLogicalSize + addH
         in (nextLogicalSize,
             \<lparr>x = Fin 0, y = addH, w = nextLogicalSize, h = currentLogicalSize\<rparr>,
             \<lparr>x = Fin 0, y = Fin 0, w = nextLogicalSize, h = addH\<rparr>))
      else if layoutMode = ascii ''ADD_BOTTOM'' then
        (let addH = Fin 150; nextLogicalSize = currentLogicalSize + addH
         in (nextLogicalSize,
             \<lparr>x = Fin 0, y = Fin 0, w = nextLogicalSize, h = currentLogicalSize\<rparr>,
             \<lparr>x = Fin 0, y = currentLogicalSize, w = nextLogicalSize, h = addH\<rparr>))
      else if layoutMode = ascii ''NYOU'' then
        (let nextLogicalSize = currentLogicalSize / Fin (7 / 10);
             margin = nextLogicalSize - currentLogicalSize;
             offsetY = nextLogicalSize * Fin (1 / 10)
         in (nextLogicalSize,
             \<lparr>x = margin, y = offsetY, w = currentLogicalSize, h = currentLogicalSize\<rparr>,
             \<lparr>x = Fin 0, y = Fin 0, w = nextLogicalSize, h = nextLogicalSize\<rparr>))
      else if layoutMode = ascii ''ENCLOSE'' then
        (let nextLogicalSize = currentLogicalSize + Fin 70;
             boxSize = nextLogicalSize * Fin (14 / 10) - Fin 70;
             boxPadding = (nextLogicalSize - boxSize) / Fin 2;
             padding = (nextLogicalSize - currentLogicalSize) / Fin 2
         in (nextLogicalSize,
             \<lparr>x = padding, y = padding, w = currentLogicalSize, h = currentLogicalSize\<rparr>,
             \<lparr>x = boxPadding, y = boxPadding, w = boxSize, h = boxSize\<rparr>))
      else if layoutMode = ascii ''ENCLOSE_GATE'' then
        (let innerRatio = Fin (75 / 100);
             nextLogicalSize = currentLogicalSize / innerRatio;
             contentScale = Fin (5 / 10);
             contentW = nextLogicalSize * contentScale;
             contentH = nextLogicalSize * contentScale;
             offsetX = (nextLogicalSize - contentW) / Fin 2;
             offsetY = nextLogicalSize * Fin (45 / 100)
         in (nextLogicalSize,
             \<lparr>x = offsetX, y = offsetY, w = contentW, h = contentH\<rparr>,
             \<lparr>x = Fin 0, y = Fin 0, w = nextLogicalSize, h = nextLogicalSize\<rparr>))
      else (currentLogicalSize, emptyBox, emptyBox))"

text \<open>
  The loop of \<open>compose\<close> over the existing strokes steps by two and writes both
  \<open>newStroke[i]\<close> and \<open>newStroke[i+1]\<close>; when a record ends on a lone coordinate the second
  write lands one past the end and appends NaN.
\<close>

function currentLoop ::
  "jsnum \<Rightarrow> jsnum \<Rightarrow> jsnum \<Rightarrow> jsnum \<Rightarrow> nat \<Rightarrow> jsnum list \<Rightarrow> jsnum list" where
  "currentLoop scaleX_curr scaleY_curr offsetX_curr offsetY_curr i newStroke =
     (if i < length newStroke then
        (let s1 = setAt newStroke i (floorJs (numAt newStroke i * scaleX_curr + offsetX_curr));
             s2 = setAt s1 (i + 1) (floorJs (numAt s1 (i + 1) * scaleY_curr + offsetY_curr))
         in currentLoop scaleX_curr scaleY_curr offsetX_curr offsetY_curr (i + 2) s2)
      else newStroke)"
  by pat_completeness auto
termination
  by (relation "measure (\<lambda>(sx, sy, ox, oy, i, s). length s - i)") (auto simp: setAt_def)

record composition =
  data :: jsstring
  logicalSize :: jsnum
  area :: jsnum

text \<open>
  \<open>composeStrokes\<close> is the stroke list that \<open>compose\<close> hands to \<open>stringify\<close>. The
  stroke decomposition of the KAGE engine (\<open>flatten\<close>) is outside the repository and is a
  parameter of both.
\<close>

definition composeStrokes ::
  "(jsstring \<Rightarrow> jsnum list list) \<Rightarrow> jsstring \<Rightarrow> jsstring \<Rightarrow> jsstring \<Rightarrow> jsnum \<Rightarrow> Rect option
     \<Rightarrow> jsnum list list" where
  "composeStrokes flatten currentData partData layoutMode currentLogicalSize partRect =
     (let strokesCurrent = flatten currentData;
          strokesPart = flatten partData;
          srcPartRect = (case partRect of Some r \<Rightarrow> r
                         | None \<Rightarrow> \<lparr>x = Fin 0, y = Fin 0, w = Fin 1, h = Fin 1\<rparr>)
      in if layoutMode = ascii ''TRIANGLE'' then
           (let nextLogicalSize = currentLogicalSize * Fin 2;
                half = nextLogicalSize / Fin 2;
                boxTop = \<lparr>x = half / Fin 2, y = Fin 0, w = half, h = half\<rparr>;
                boxLeft = \<lparr>x = Fin 0, y = half, w = half, h = half\<rparr>;
                boxRight = \<lparr>x = half, y = half, w = half, h = half\<rparr>;
                s1 = transformStrokes strokesPart boxTop (Some srcPartRect);
                s2 = transformStrokes strokesPart boxLeft (Some srcPartRect);
                s3 = transformStrokes strokesPart boxRight (Some srcPartRect)
            in s1 @ s2 @ s3)
         else
           (case layoutBoxes layoutMode currentLogicalSize of
              (nextLogicalSize, boxCurrent, boxPart) \<Rightarrow>
                (let scaleX_curr = w boxCurrent / currentLogicalSize;
                     scaleY_curr = h boxCurrent / currentLogicalSize;
                     offsetX_curr = x boxCurrent;
                     offsetY_curr = y boxCurrent;
                     transCurrent = map (\<lambda>s. currentLoop scaleX_curr scaleY_curr
                                                  offsetX_curr offsetY_curr 3 s) strokesCurrent;
                     transPart = transformStrokes strokesPart boxPart (Some srcPartRect)
                 in transCurrent @ transPart)))"

definition compose ::
  "(jsstring \<Rightarrow> jsnum list list) \<Rightarrow> (jsnum \<Rightarrow> jsstring) \<Rightarrow> jsstring \<Rightarrow> jsstring \<Rightarrow> jsstring
     \<Rightarrow> jsnum \<Rightarrow> jsnum \<Rightarrow> jsnum \<Rightarrow> Rect option \<Rightarrow> composition" where
  "compose flatten numToString currentData partData layoutMode currentLogicalSize currentArea
       areaFactor partRect =
     (let strokes = composeStrokes flatten currentData partData layoutMode
                      currentLogicalSize partRect
      in if layoutMode = ascii ''TRIANGLE'' then
           (let nextLogicalSize = currentLogicalSize * Fin 2;
                nextArea = (Fin 40000 * Fin 3) * areaFactor
            in \<lparr>data = stringify numToString strokes,
                logicalSize = nextLogicalSize,
                area = nextArea\<rparr>)
         else
           (case layoutBoxes layoutMode currentLogicalSize of
              (nextLogicalSize, boxCurrent, boxPart) \<Rightarrow>
                (let baseRatio = nextLogicalSize / currentLogicalSize;
                     baseNextArea = currentArea * baseRatio;
                     deltaArea = baseNextArea - currentArea;
                     adjustedDelta = deltaArea * areaFactor;
                     nextArea = currentArea + adjustedDelta
                 in \<lparr>data = stringify numToString strokes,
                     logicalSize = floorJs nextLogicalSize,
                     area = nextArea\<rparr>)))"

section \<open>GlyphLoader\<close>

text \<open>
  \<open>load\<close> is an async function: a call runs up to its first \<open>await\<close> at once, which is
  where \<open>fetch\<close> is called, and the rest runs when the response has arrived. The loader is
  therefore a state machine. Its state holds the cache, the identifiers for which
  \<open>fetch\<close> has been called so far, in order, and the identifiers of the activations of
  \<open>load\<close> that wait for their response.
\<close>

record loader =
  cache :: "jsstring \<rightharpoonup> jsval"
  fetched :: "jsstring list"
  pending :: "jsstring list"

definition newLoader :: loader where
  "newLoader = \<lparr>cache = Map.empty, fetched = [], pending = []\<rparr>"

definition charToId :: "jsstring \<Rightarrow> jsstring option" where
  "charToId char = (if char = [] then None else Some (ascii ''u'' @ toStringRadix 16 (hd char)))"

text \<open>\<open>this.cache[id]\<close>: a missing key reads as \<open>undefined\<close>.\<close>

definition cacheGet :: "loader \<Rightarrow> jsstring \<Rightarrow> jsval" where
  "cacheGet L k = (case cache L k of Some v \<Rightarrow> v | None \<Rightarrow> Undefined)"

definition loadId :: "jsstring \<Rightarrow> jsstring option" where
  "loadId nameOrId = (if startsWith nameOrId (ascii ''u'') then Some nameOrId else charToId nameOrId)"

text \<open>
  The part of \<open>load\<close> before the first \<open>await\<close>: it returns \<open>null\<close> or the cached value, or
  calls \<open>fetch\<close> and suspends.
\<close>

datatype outcome = Returns jsval | Suspends

definition loadStart :: "jsstring \<Rightarrow> loader \<Rightarrow> outcome \<times> loader" where
  "loadStart nameOrId L =
     (case loadId nameOrId of
        None \<Rightarrow> (Returns Null, L)
      | Some i \<Rightarrow>
          if truthy (cacheGet L i) then (Returns (cacheGet L i), L)
          else (Suspends, L\<lparr>fetched := fetched L @ [i], pending := pending L @ [i]\<rparr>))"

text \<open>
  The scan of the fetched lines. Each reference that is not cached calls \<open>load\<close>, whose
  first part runs inside the loop; the promises are only awaited after the loop.
\<close>

fun scanLines :: "jsstring list \<Rightarrow> loader \<Rightarrow> loader" where
  "scanLines [] L = L"
| "scanLines (line # rest) L =
     (let cols = splitOn 58 line in
      if hd cols = ascii ''99'' then
        (if 7 < length cols \<and> cols ! 7 \<noteq> [] \<and> \<not> truthy (cacheGet L (cols ! 7))
         then scanLines rest (snd (loadStart (cols ! 7) L))
         else scanLines rest L)
      else scanLines rest L)"

text \<open>
  What the network delivers for one request: a failure of \<open>fetch\<close> or of \<open>res.json()\<close>, or
  the parsed body.
\<close>

datatype response = Rejected | Json jsval

text \<open>
  The part of \<open>load\<close> after the response of the request for \<open>id\<close>: the value the call
  finally returns, and the loader. The returned value is fixed here, since the nested
  loads never reject.
\<close>

definition loadResume :: "jsstring \<Rightarrow> response \<Rightarrow> loader \<Rightarrow> jsval \<times> loader" where
  "loadResume i resp L =
     (case resp of
        Rejected \<Rightarrow> (Null, L)
      | Json json \<Rightarrow>
          (case getProp json (ascii ''data'') of
             None \<Rightarrow> (Null, L)
           | Some dat \<Rightarrow>
               (let L1 = L\<lparr>cache := (cache L)(i \<mapsto> dat)\<rparr> in
                case dat of
                  String d \<Rightarrow> (String d, scanLines (splitOn 36 d) L1)
                | _ \<Rightarrow> (Null, L1))))"

text \<open>
  The events of a loader: a caller calls \<open>load\<close>, or the response of the \<open>k\<close>-th waiting
  activation arrives.
\<close>

datatype event = Call jsstring | Settle nat response

fun step :: "event \<Rightarrow> loader \<Rightarrow> loader" where
  "step (Call nameOrId) L = snd (loadStart nameOrId L)"
| "step (Settle k resp) L =
     (if k < length (pending L)
      then snd (loadResume (pending L ! k) resp
                  (L\<lparr>pending := take k (pending L) @ drop (Suc k) (pending L)\<rparr>))
      else L)"

fun run :: "event list \<Rightarrow> loader \<Rightarrow> loader" where
  "run [] L = L"
| "run (e # es) L = run es (step e L)"

section \<open>KanjiEditorState\<close>

type_synonym jsobj = "(jsstring \<times> jsval) list"

record editor =
  history :: "jsobj list"
  state :: jsobj

definition getInitialState :: jsobj where
  "getInitialState =
     [(ascii ''data'', String []),
      (ascii ''logicalSize'', Number (Fin 200)),
      (ascii ''area'', Number (Fin 40000))]"

definition newEditor :: editor where
  "newEditor = \<lparr>history = [], state = getInitialState\<rparr>"

definition reset :: "jsval \<Rightarrow> editor \<Rightarrow> editor" where
  "reset initialData e =
     \<lparr>history = [],
      state = [(ascii ''data'', initialData),
               (ascii ''logicalSize'', Number (Fin 200)),
               (ascii ''area'', Number (Fin 40000))]\<rparr>"

text \<open>\<open>push\<close> appends a copy of the current object; the assignments then change the current one.\<close>

definition update :: "jsval \<Rightarrow> jsval \<Rightarrow> jsval \<Rightarrow> editor \<Rightarrow> editor" where
  "update newData newSize newArea e =
     \<lparr>history = history e @ [state e],
      state = AList.update (ascii ''area'') newArea
                (AList.update (ascii ''logicalSize'') newSize
                   (AList.update (ascii ''data'') newData (state e)))\<rparr>"

definition undo :: "editor \<Rightarrow> bool \<times> editor" where
  "undo e =
     (if length (history e) > 0
      then (True, \<lparr>history = butlast (history e), state = last (history e)\<rparr>)
      else (False, e))"

definition getCurrent :: "editor \<Rightarrow> jsobj" where
  "getCurrent e = state e"


definition importJson :: "(jsstring \<Rightarrow> jsval option) \<Rightarrow> jsstring \<Rightarrow> editor \<Rightarrow> bool \<times> editor" where
  "importJson jsonParse jsonString e =
     (case jsonParse jsonString of
        None \<Rightarrow> (False, e)
      | Some parsed \<Rightarrow>
          (case (getProp parsed (ascii ''data''), getProp parsed (ascii ''logicalSize''),
                 getProp parsed (ascii ''area'')) of
             (Some d, Some l, Some a) \<Rightarrow>
               if typeof d = ''string'' \<and> typeof l = ''number'' \<and> typeof a = ''number''
               then (case parsed of
                       Object fs \<Rightarrow> (True, \<lparr>history = [], state = fs\<rparr>)
                     | _ \<Rightarrow> (False, e))
               else (False, e)
           | _ \<Rightarrow> (False, e)))"

section \<open>Predicates of the specification\<close>

text \<open>
  A stroke record holds its coordinates in complete pairs when nothing or an even number
  of values follows its first three fields.
\<close>

definition completePairs :: "jsnum list \<Rightarrow> bool" where
  "completePairs s = (length s \<le> 3 \<or> even (length s - 3))"

text \<open>An output record keeps the frame of its source: the same length and the same first three fields.\<close>

definition sameFrame :: "jsnum list \<Rightarrow> jsnum list \<Rightarrow> bool" where
  "sameFrame out src = (length out = length src \<and> take 3 out = take 3 src)"

text \<open>
  The shape the specification demands of imported JSON: an object with a string field
  \<open>data\<close> and numeric fields \<open>logicalSize\<close> and \<open>area\<close>.
\<close>

definition validImport :: "jsval \<Rightarrow> bool" where
  "validImport v =
     (case v of
        Object fs \<Rightarrow>
          (case (map_of fs (ascii ''data''), map_of fs (ascii ''logicalSize''),
                 map_of fs (ascii ''area'')) of
             (Some (String s), Some (Number l), Some (Number a)) \<Rightarrow> True
           | _ \<Rightarrow> False)
      | _ \<Rightarrow> False)"


section \<open>Sample collaborators\<close>

text \<open>
  Stand-ins for the collaborators outside the repository, used in the closed examples: a
  stroke decomposition that knows three texts, the printing of integers, a response body
  with a \<open>data\<close> field, and a JSON codec that knows three texts.
\<close>

definition sampleFlatten :: "jsstring \<Rightarrow> jsnum list list" where
  "sampleFlatten d =
     (if d = ascii ''part'' then [[Fin 1, Fin 0, Fin 0, Fin 10, Fin 10, Fin 50, Fin 50]]
      else if d = ascii ''current'' then [[Fin 1, Fin 0, Fin 0, Fin 0, Fin 0, Fin 200, Fin 200]]
      else if d = ascii ''lone'' then [[Fin 1, Fin 0, Fin 0, Fin 10, Fin 10, Fin 50]]
      else [])"

fun sampleNumToString :: "jsnum \<Rightarrow> jsstring" where
  "sampleNumToString (Fin a) =
     (if a = of_int \<lfloor>a\<rfloor> then
        (if a < 0 then ascii ''-'' @ toStringRadix 10 (nat \<lfloor>- a\<rfloor>)
         else toStringRadix 10 (nat \<lfloor>a\<rfloor>))
      else ascii ''?'')"
| "sampleNumToString PInf = ascii ''Infinity''"
| "sampleNumToString NInf = ascii ''-Infinity''"
| "sampleNumToString NaN = ascii ''NaN''"

definition sampleBody :: "jsstring \<Rightarrow> response" where
  "sampleBody d = Json (Object [(ascii ''data'', String d)])"

text \<open>A definition that refers to the part \<open>u53e3\<close> twice, and two texts for that part.\<close>

definition twiceReferenced :: jsstring where
  "twiceReferenced = ascii ''99:0:0:0:0:200:200:u53e3$99:0:0:0:0:100:100:u53e3''"

definition firstText :: jsstring where
  "firstText = ascii ''1:0:0:50:50:150:50''"

definition secondText :: jsstring where
  "secondText = ascii ''1:0:0:40:40:160:40''"

definition sampleJsonText :: jsstring where
  \<open>sampleJsonText =
     ascii ''{'' @ [10] @ ascii ''  "data": "",'' @ [10] @ ascii ''  "logicalSize": 200,'' @ [10]
       @ ascii ''  "area": 40000'' @ [10] @ ascii ''}''\<close>


definition sampleJsonParse :: "jsstring \<Rightarrow> jsval option" where
  \<open>sampleJsonParse t =
     (if t = sampleJsonText then Some (Object getInitialState)
      else if t = ascii ''{"data": 5}'' then Some (Object [(ascii ''data'', Number (Fin 5))])
      else if t = ascii ''null'' then Some Null
      else None)\<close>

section \<open>Properties of the composition engine\<close>

declare transformLoop.simps [simp del]
declare currentLoop.simps [simp del]
declare toStringRadix.simps [simp del]

lemma ascii_inject [simp]: "(ascii s = ascii t) = (s = t)"
  by (simp add: ascii_def inj_map_eq_map inj_on_def)

subsection \<open>The two coordinate loops\<close>

lemma length_transformLoop:
  "length (transformLoop sx sy ox oy i s) = length s"
proof (induction sx sy ox oy i s rule: transformLoop.induct)
  case (1 sx sy ox oy i s)
  then show ?case
    by (subst transformLoop.simps) (simp add: Let_def)
qed

lemma take_transformLoop_le:
  "j \<le> i \<Longrightarrow> take j (transformLoop sx sy ox oy i s) = take j s"
proof (induction sx sy ox oy i s rule: transformLoop.induct)
  case (1 sx sy ox oy i s)
  show ?case
  proof (cases "i < length s")
    case True
    with 1 show ?thesis
      by (subst transformLoop.simps) (simp add: Let_def)
  next
    case False
    then show ?thesis by (subst transformLoop.simps) simp
  qed
qed

lemma length_currentLoop:
  "length s \<le> i \<or> even (length s - i) \<Longrightarrow> length (currentLoop sx sy ox oy i s) = length s"
proof (induction sx sy ox oy i s rule: currentLoop.induct)
  case (1 sx sy ox oy i s)
  show ?case
  proof (cases "i < length s")
    case True
    with 1(2) have ev: "even (length s - i)" by simp
    with True have lt: "i + 1 < length s" by (cases "length s - i = 1") auto
    have "length (currentLoop sx sy ox oy i s)
            = length (setAt (setAt s i (floorJs (numAt s i * sx + ox))) (i + 1)
                (floorJs (numAt (setAt s i (floorJs (numAt s i * sx + ox))) (i + 1) * sy + oy)))"
      using True lt ev 1(1) by (subst currentLoop.simps) (simp add: Let_def setAt_def)
    then show ?thesis using True lt by (simp add: setAt_def)
  next
    case False
    then show ?thesis by (subst currentLoop.simps) simp
  qed
qed

lemma take_currentLoop:
  "take i (currentLoop sx sy ox oy i s) = take i s"
proof (induction sx sy ox oy i s rule: currentLoop.induct)
  case (1 sx sy ox oy i s)
  show ?case
  proof (cases "i < length s")
    case True
    define s2 where "s2 = setAt (setAt s i (floorJs (numAt s i * sx + ox))) (i + 1)
         (floorJs (numAt (setAt s i (floorJs (numAt s i * sx + ox))) (i + 1) * sy + oy))"
    have a: "currentLoop sx sy ox oy i s = currentLoop sx sy ox oy (i + 2) s2"
      using True by (subst currentLoop.simps) (simp add: Let_def s2_def)
    have b: "take (i + 2) (currentLoop sx sy ox oy (i + 2) s2) = take (i + 2) s2"
      using 1[OF True refl refl] by (simp add: s2_def)
    have "take i (currentLoop sx sy ox oy (i + 2) s2)
            = take i (take (i + 2) (currentLoop sx sy ox oy (i + 2) s2))"
      by (simp add: min_def)
    also have "\<dots> = take i s2" by (simp only: b) (simp add: min_def)
    also have "\<dots> = take i s" using True by (simp add: s2_def setAt_def)
    finally show ?thesis using a by simp
  qed (subst currentLoop.simps, simp)
qed

text \<open>A record that ends on a lone coordinate grows by one NaN in the loop over the existing strokes.\<close>

lemma currentLoop_lone_coordinate:
  "currentLoop (Fin 1) (Fin (5 / 2)) (Fin 0) (Fin 0) 3 [Fin 1, Fin 0, Fin 0, Fin 10, Fin 10, Fin 50]
     = [Fin 1, Fin 0, Fin 0, Fin 10, Fin 25, Fin 50, NaN]"
  by code_simp

lemma sameFrame_transformStrokes:
  "list_all2 sameFrame (transformStrokes strokes box r) strokes"
  by (simp add: transformStrokes_def Let_def list_all2_map1 sameFrame_def
        length_transformLoop take_transformLoop_le list_all2_same)

lemma sameFrame_currentLoop:
  "list_all completePairs strokes \<Longrightarrow>
   list_all2 sameFrame (map (currentLoop sx sy ox oy 3) strokes) strokes"
  by (simp add: list_all2_map1 sameFrame_def completePairs_def list_all_iff
        length_currentLoop take_currentLoop list_all2_same)




lemma part_scenario:
  "transformStrokes [[Fin 1, Fin 0, Fin 0, Fin 10, Fin 10, Fin 50, Fin 50]]
     \<lparr>x = Fin 200, y = Fin 0, w = Fin 300, h = Fin 500\<rparr>
     (Some \<lparr>x = Fin 0, y = Fin 0, w = Fin 1, h = Fin 1\<rparr>)
   = [[Fin 1, Fin 0, Fin 0, Fin 215, Fin 25, Fin 275, Fin 125]]"
  by code_simp

lemma current_scenario:
  "currentLoop (Fin 1) (Fin (5 / 2)) (Fin 0) (Fin 0) 3
     [Fin 1, Fin 0, Fin 0, Fin 0, Fin 0, Fin 200, Fin 200]
   = [Fin 1, Fin 0, Fin 0, Fin 0, Fin 0, Fin 200, Fin 500]"
  by code_simp

subsection \<open>The concrete scenario\<close>

text \<open>
  C1. Composing with layout ADD_RIGHT at logical size 200, area 40000, area factor 1 and no
  part rect, where the part flattens to the single record \<open>[1,0,0,10,10,50,50]\<close>: the
  result has logical size 500, the part box is (200,0,300,500), the part record becomes
  \<open>[1,0,0,215,25,275,125]\<close> (so (10,10) goes to (215,25)) behind the transformed
  existing strokes, and the returned area is 100000.
\<close>

theorem compose_ADD_RIGHT_scenario:
  assumes "flatten partData = [[Fin 1, Fin 0, Fin 0, Fin 10, Fin 10, Fin 50, Fin 50]]"
  shows "logicalSize (compose flatten numToString currentData partData (ascii ''ADD_RIGHT'')
            (Fin 200) (Fin 40000) (Fin 1) None) = Fin 500
       \<and> snd (snd (layoutBoxes (ascii ''ADD_RIGHT'') (Fin 200)))
           = \<lparr>x = Fin 200, y = Fin 0, w = Fin 300, h = Fin 500\<rparr>
       \<and> composeStrokes flatten currentData partData (ascii ''ADD_RIGHT'') (Fin 200) None
           = map (currentLoop (Fin 1) (Fin (5 / 2)) (Fin 0) (Fin 0) 3) (flatten currentData)
             @ [[Fin 1, Fin 0, Fin 0, Fin 215, Fin 25, Fin 275, Fin 125]]
       \<and> floorJs (Fin 10 * (Fin 300 / Fin 200) + Fin 200) = Fin 215
       \<and> floorJs (Fin 10 * (Fin 500 / Fin 200) + Fin 0) = Fin 25
       \<and> area (compose flatten numToString currentData partData (ascii ''ADD_RIGHT'')
            (Fin 200) (Fin 40000) (Fin 1) None) = Fin 100000"
  using assms part_scenario
  by (simp add: compose_def composeStrokes_def layoutBoxes_def Let_def)

theorem compose_ADD_RIGHT_scenario_witness:
  "sampleFlatten (ascii ''part'') = [[Fin 1, Fin 0, Fin 0, Fin 10, Fin 10, Fin 50, Fin 50]]
   \<and> composeStrokes sampleFlatten (ascii ''current'') (ascii ''part'') (ascii ''ADD_RIGHT'')
        (Fin 200) None
       = [[Fin 1, Fin 0, Fin 0, Fin 0, Fin 0, Fin 200, Fin 500],
          [Fin 1, Fin 0, Fin 0, Fin 215, Fin 25, Fin 275, Fin 125]]
   \<and> logicalSize (compose sampleFlatten sampleNumToString (ascii ''current'') (ascii ''part'')
        (ascii ''ADD_RIGHT'') (Fin 200) (Fin 40000) (Fin 1) None) = Fin 500
   \<and> area (compose sampleFlatten sampleNumToString (ascii ''current'') (ascii ''part'')
        (ascii ''ADD_RIGHT'') (Fin 200) (Fin 40000) (Fin 1) None) = Fin 100000"
  using compose_ADD_RIGHT_scenario
    [where flatten = sampleFlatten and partData = "ascii ''part''"
       and currentData = "ascii ''current''" and numToString = sampleNumToString]
    current_scenario
  by (simp add: sampleFlatten_def)

text \<open>The whole scenario with the sample collaborators, down to the text that is returned.\<close>

lemma scenario_strokes:
  "composeStrokes sampleFlatten (ascii ''current'') (ascii ''part'') (ascii ''ADD_RIGHT'')
     (Fin 200) None
   = [[Fin 1, Fin 0, Fin 0, Fin 0, Fin 0, Fin 200, Fin 500],
      [Fin 1, Fin 0, Fin 0, Fin 215, Fin 25, Fin 275, Fin 125]]"
  using part_scenario current_scenario
  by (simp add: composeStrokes_def layoutBoxes_def Let_def sampleFlatten_def)

lemma scenario_text:
  "stringify sampleNumToString
     [[Fin 1, Fin 0, Fin 0, Fin 0, Fin 0, Fin 200, Fin 500],
      [Fin 1, Fin 0, Fin 0, Fin 215, Fin 25, Fin 275, Fin 125]]
   = ascii ''1:0:0:0:0:200:500$1:0:0:215:25:275:125''"
  by (simp add: stringify_def toStringRadix.simps digitChar_def ascii_def)

lemma scenario_data:
  "data (compose sampleFlatten sampleNumToString (ascii ''current'') (ascii ''part'')
     (ascii ''ADD_RIGHT'') (Fin 200) (Fin 40000) (Fin 1) None)
   = ascii ''1:0:0:0:0:200:500$1:0:0:215:25:275:125''"
  using scenario_strokes scenario_text
  by (simp add: compose_def layoutBoxes_def Let_def)

subsection \<open>Area preservation\<close>




subsection \<open>The TRIANGLE layout\<close>


subsection \<open>The frame of the stroke records\<close>

text \<open>
  C10, as amended. When every existing stroke record holds its coordinates in complete
  pairs, every output record has the length and the first three fields of its source
  record, and the output has one record for each record of its source list: the existing
  strokes followed by the part's strokes for every layout but TRIANGLE, and the part's
  strokes three times over for TRIANGLE.
\<close>

theorem compose_frame:
  assumes "list_all completePairs (flatten currentData)"
  shows "list_all2 sameFrame
           (composeStrokes flatten currentData partData layoutMode cs pr)
           (if layoutMode = ascii ''TRIANGLE''
            then flatten partData @ flatten partData @ flatten partData
            else flatten currentData @ flatten partData)"
  using assms
  by (auto simp: composeStrokes_def Let_def split: prod.splits
        intro!: list_all2_appendI sameFrame_transformStrokes sameFrame_currentLoop)

theorem compose_frame_witness:
  "list_all completePairs (sampleFlatten (ascii ''current''))
   \<and> list_all2 sameFrame
        (composeStrokes sampleFlatten (ascii ''current'') (ascii ''part'') (ascii ''ADD_RIGHT'')
           (Fin 200) None)
        (sampleFlatten (ascii ''current'') @ sampleFlatten (ascii ''part''))
   \<and> list_all2 sameFrame
        (composeStrokes sampleFlatten (ascii ''current'') (ascii ''part'') (ascii ''TRIANGLE'')
           (Fin 200) None)
        (sampleFlatten (ascii ''part'') @ sampleFlatten (ascii ''part'')
           @ sampleFlatten (ascii ''part''))"
  using compose_frame
    [where flatten = sampleFlatten and currentData = "ascii ''current''"
       and partData = "ascii ''part''" and layoutMode = "ascii ''ADD_RIGHT''"
       and cs = "Fin 200" and pr = None]
    compose_frame
    [where flatten = sampleFlatten and currentData = "ascii ''current''"
       and partData = "ascii ''part''" and layoutMode = "ascii ''TRIANGLE''"
       and cs = "Fin 200" and pr = None]
  by (simp add: sampleFlatten_def completePairs_def)

text \<open>
  For TRIANGLE the output is not framed by the existing strokes followed by the part's
  strokes: the existing record is dropped and the part's record appears three times.
\<close>

theorem compose_frame_counterexample:
  "\<not> list_all2 sameFrame
       (composeStrokes sampleFlatten (ascii ''current'') (ascii ''part'') (ascii ''TRIANGLE'')
          (Fin 200) None)
       (sampleFlatten (ascii ''current'') @ sampleFlatten (ascii ''part''))
   \<and> length (composeStrokes sampleFlatten (ascii ''current'') (ascii ''part'')
        (ascii ''TRIANGLE'') (Fin 200) None) = 3"
  by (simp add: composeStrokes_def Let_def sampleFlatten_def transformStrokes_def)

section \<open>Properties of the loader\<close>

lemmas loader_eval = loadStart_def loadId_def startsWith_def charToId_def cacheGet_def
  newLoader_def sampleBody_def loadResume_def ascii_def Let_def toStringRadix.simps
  digitChar_def twiceReferenced_def firstText_def secondText_def

subsection \<open>The cache only grows\<close>

lemma cache_loadStart: "cache (snd (loadStart n L)) = cache L"
  by (simp add: loadStart_def split: option.splits)

lemma cache_scanLines: "cache (scanLines ls L) = cache L"
  by (induction ls arbitrary: L) (simp_all add: Let_def cache_loadStart)




subsection \<open>A settled identifier stays settled\<close>









subsection \<open>Calls that overlap\<close>

text \<open>
  C5, as amended. When \<open>load\<close> is called twice for the same identifier before a response
  has arrived, and nothing truthy is cached for it, each call calls \<open>fetch\<close>: two requests
  are made and two activations wait, for there is no table of requests under way. Each
  activation, when its response carries a text, stores that text in the cache and returns
  it, so the two callers observe the same text when both responses carry the same text.
\<close>

theorem load_twice_before_response:
  assumes "loadId nameOrId = Some i" and "\<not> truthy (cacheGet L i)"
  shows "fetched (run [Call nameOrId, Call nameOrId] L) = fetched L @ [i, i]
       \<and> pending (run [Call nameOrId, Call nameOrId] L) = pending L @ [i, i]
       \<and> cache (run [Call nameOrId, Call nameOrId] L) = cache L
       \<and> fst (loadResume i (Json (Object [(ascii ''data'', String d)])) L') = String d
       \<and> cache (snd (loadResume i (Json (Object [(ascii ''data'', String d)])) L')) i
           = Some (String d)"
  using assms
  by (simp add: loadStart_def cacheGet_def loadResume_def cache_scanLines split: option.splits)

theorem load_twice_before_response_witness:
  "loadId [26408] = Some (ascii ''u6728'')
   \<and> \<not> truthy (cacheGet newLoader (ascii ''u6728''))
   \<and> fetched (run [Call [26408], Call [26408]] newLoader) = [ascii ''u6728'', ascii ''u6728'']
   \<and> pending (run [Call [26408], Call [26408]] newLoader) = [ascii ''u6728'', ascii ''u6728'']
   \<and> cache (run [Call [26408], Call [26408], Settle 0 (sampleBody firstText),
                 Settle 0 (sampleBody firstText)] newLoader) (ascii ''u6728'')
       = Some (String firstText)"
  using load_twice_before_response
    [where nameOrId = "[26408]" and i = "ascii ''u6728''" and L = newLoader
       and d = firstText and L' = newLoader]
  by (simp add: loader_eval)

text \<open>Two calls of \<open>load\<close> for the character U+6728 on a fresh loader make two requests for \<open>u6728\<close>.\<close>

theorem load_twice_counterexample:
  "fetched (run [Call [26408], Call [26408]] newLoader) = [ascii ''u6728'', ascii ''u6728'']
   \<and> count_list (fetched (run [Call [26408], Call [26408]] newLoader)) (ascii ''u6728'') = 2"
  by (simp add: loader_eval)

subsection \<open>Failed loads\<close>

lemma loadResume_Rejected: "loadResume i Rejected L = (Null, L)"
  by (simp add: loadResume_def)

text \<open>
  C9. A load whose fetch fails leaves the cache as it was. A load whose response is JSON
  without a text in \<open>data\<close> returns \<open>null\<close>, but the assignment to the cache has already
  happened: the identifier is left in the cache with \<open>null\<close> or \<open>undefined\<close> as its value.
\<close>

theorem load_malformed_data_leaves_entry:
  "fst (loadStart [26408] newLoader) = Suspends
   \<and> fst (loadResume (ascii ''u6728'')
        (Json (Object [(ascii ''name'', String (ascii ''u6728'')), (ascii ''data'', Null)]))
        (snd (loadStart [26408] newLoader))) = Null
   \<and> cache (run [Call [26408],
                 Settle 0 (Json (Object [(ascii ''name'', String (ascii ''u6728'')),
                                         (ascii ''data'', Null)]))] newLoader)
        (ascii ''u6728'') = Some Null
   \<and> cache (run [Call [26408], Settle 0 (Json (Object []))] newLoader) (ascii ''u6728'')
       = Some Undefined
   \<and> cache (run [Call [26408], Settle 0 Rejected] newLoader) (ascii ''u6728'') = None"
  by (simp add: loader_eval)

section \<open>Properties of the editor state\<close>

lemma typeof_string: "(typeof v = ''string'') = (\<exists>s. v = String s)"
  by (cases v) simp_all

lemma typeof_number: "(typeof v = ''number'') = (\<exists>n. v = Number n)"
  by (cases v) simp_all

text \<open>
  C6. After \<open>reset(d)\<close>, an update to \<open>a\<close> and an update to \<open>b\<close>, the first undo succeeds
  and makes current the state whose data is \<open>a\<close>; the second succeeds and makes current the
  state right after the reset, with data \<open>d\<close>, logical size 200 and area 40000 and an empty
  history; the third fails and changes nothing.
\<close>

theorem undo_laws:
  "undo (update b sizeB areaB (update a sizeA areaA (reset d e)))
     = (True, update a sizeA areaA (reset d e))
   \<and> state (update a sizeA areaA (reset d e))
       = [(ascii ''data'', a), (ascii ''logicalSize'', sizeA), (ascii ''area'', areaA)]
   \<and> undo (update a sizeA areaA (reset d e)) = (True, reset d e)
   \<and> state (reset d e)
       = [(ascii ''data'', d), (ascii ''logicalSize'', Number (Fin 200)),
          (ascii ''area'', Number (Fin 40000))]
   \<and> history (reset d e) = []
   \<and> undo (reset d e) = (False, reset d e)"
  by (simp add: undo_def update_def reset_def)



lemma importJson_cases:
  "importJson jsonParse jsonString e =
     (case jsonParse jsonString of
        None \<Rightarrow> (False, e)
      | Some parsed \<Rightarrow>
          if validImport parsed
          then (True, \<lparr>history = [], state = (case parsed of Object fs \<Rightarrow> fs | _ \<Rightarrow> [])\<rparr>)
          else (False, e))"
proof (cases "jsonParse jsonString")
  case None
  then show ?thesis by (simp add: importJson_def)
next
  case (Some parsed)
  show ?thesis
  proof (cases parsed)
    case (Object fs)
    with Some show ?thesis
      by (auto simp: importJson_def validImport_def typeof_string typeof_number
            split: option.splits jsval.splits)
  qed (use Some in \<open>simp_all add: importJson_def validImport_def\<close>)
qed

text \<open>
  C8. When the text does not parse, or the parsed value is not an object with a string
  \<open>data\<close> and numeric \<open>logicalSize\<close> and \<open>area\<close>, \<open>importJson\<close> reports failure and leaves
  the current state and the history as they were; otherwise it reports success, empties
  the history and makes the parsed object the current state.
\<close>

theorem importJson_validation:
  "(jsonParse t1 = None \<longrightarrow> importJson jsonParse t1 e = (False, e))
   \<and> (jsonParse t2 = Some v \<and> \<not> validImport v \<longrightarrow> importJson jsonParse t2 e = (False, e))
   \<and> (jsonParse t3 = Some (Object fs) \<and> validImport (Object fs) \<longrightarrow>
        importJson jsonParse t3 e = (True, \<lparr>history = [], state = fs\<rparr>))"
  by (simp add: importJson_cases)

theorem importJson_validation_witness:
  "sampleJsonParse (ascii ''{'') = None
   \<and> importJson sampleJsonParse (ascii ''{'') (update (String firstText) (Number (Fin 500))
        (Number (Fin 100000)) newEditor)
       = (False, update (String firstText) (Number (Fin 500)) (Number (Fin 100000)) newEditor)
   \<and> sampleJsonParse (ascii ''null'') = Some Null
   \<and> \<not> validImport Null
   \<and> importJson sampleJsonParse (ascii ''null'') (update (String firstText) (Number (Fin 500))
        (Number (Fin 100000)) newEditor)
       = (False, update (String firstText) (Number (Fin 500)) (Number (Fin 100000)) newEditor)
   \<and> sampleJsonParse sampleJsonText = Some (Object getInitialState)
   \<and> validImport (Object getInitialState)
   \<and> importJson sampleJsonParse sampleJsonText (update (String firstText) (Number (Fin 500))
        (Number (Fin 100000)) newEditor)
       = (True, \<lparr>history = [], state = getInitialState\<rparr>)"
  using importJson_validation
    [where jsonParse = sampleJsonParse and ?t1.0 = "ascii ''{''" and ?t2.0 = "ascii ''null''"
       and v = Null and ?t3.0 = sampleJsonText and fs = getInitialState
       and e = "update (String firstText) (Number (Fin 500)) (Number (Fin 100000)) newEditor"]
  by (simp add: sampleJsonParse_def sampleJsonText_def validImport_def getInitialState_def
        ascii_def)

end
